theory Spec2Isabelle
  imports Complex_Main "HOL-Library.Sublist"
begin

section \<open>Values shared by the client and the gateway\<close>

text \<open>
  A JavaScript \<open>throw\<close> is modelled as the left summand of a sum type. Everything the
  client throws is an \<open>Error\<close> object with a message; the remote SDK is free to throw
  any value, so a second constructor stands for a thrown value that is not an
  \<open>Error\<close> instance (the two \<open>catch\<close> blocks of the source test
  \<open>error instanceof Error\<close>).
\<close>

datatype thrown = Error (message: string) | NonError

text \<open>
  Numbers. Timestamps (\<open>Date.now()\<close>) and the configured limit are integers and are
  modelled as \<open>int\<close>; \<open>NaN\<close> as a configured limit is outside the model. The only
  non-finite number the limiter can produce is \<open>Infinity\<close>, from \<open>Math.min()\<close> of no
  arguments.
\<close>

datatype jsnum = Finite int | Infinity

definition digit_char :: "nat \<Rightarrow> char" where
  "digit_char d = ''0123456789'' ! d"

fun show_nat :: "nat \<Rightarrow> string" where
  "show_nat n = (if n < 10 then [digit_char n] else show_nat (n div 10) @ [digit_char (n mod 10)])"

declare show_nat.simps [simp del]

definition show_int :: "int \<Rightarrow> string" where
  "show_int i = (if i < 0 then CHR ''-'' # show_nat (nat (- i)) else show_nat (nat i))"

definition show_jsnum :: "jsnum \<Rightarrow> string" where
  "show_jsnum x = (case x of Finite i \<Rightarrow> show_int i | Infinity \<Rightarrow> ''Infinity'')"

section \<open>Configuration\<close>

text \<open>
  \<open>GeminiConfig\<close> after the constructor has merged its defaults
  (\<open>model\<close>, \<open>safetyLevel\<close>, \<open>maxRequestsPerMinute = 10\<close>) with the caller's values.
\<close>

record GeminiConfig =
  apiKey :: string
  model :: string
  safetyLevel :: string
  maxRequestsPerMinute :: int

section \<open>The rate limiter: \<open>checkRateLimit\<close>\<close>

text \<open>
  \<open>Math.min(...xs)\<close>: the least element, \<open>Infinity\<close> for no arguments.
\<close>

definition Math_min :: "int list \<Rightarrow> jsnum" where
  "Math_min xs = (case xs of [] \<Rightarrow> Infinity | y # ys \<Rightarrow> Finite (fold min ys y))"

text \<open>
  \<open>const waitTime = 60000 - (now - oldestRequest)\<close>; with \<open>oldestRequest = Infinity\<close>
  the inner difference is \<open>-Infinity\<close> and the result \<open>Infinity\<close>.
\<close>

definition waitTime :: "int \<Rightarrow> int list \<Rightarrow> jsnum" where
  "waitTime now remaining =
     (case Math_min remaining of
        Infinity \<Rightarrow> Infinity
      | Finite oldestRequest \<Rightarrow> Finite (60000 - (now - oldestRequest)))"

text \<open>\<open>Math.ceil(waitTime / 1000)\<close> on an integer number of milliseconds.\<close>

definition ceil_seconds :: "jsnum \<Rightarrow> jsnum" where
  "ceil_seconds w = (case w of Infinity \<Rightarrow> Infinity | Finite ms \<Rightarrow> Finite (- ((- ms) div 1000)))"

definition rate_limit_message :: "jsnum \<Rightarrow> string" where
  "rate_limit_message w =
     ''Rate limit exceeded. Please wait '' @ show_jsnum (ceil_seconds w) @ '' seconds.''"

text \<open>
  \<open>checkRateLimit\<close> reads the clock once (\<open>now\<close>), replaces the field
  \<open>requestTimestamps\<close> by its filtered copy, and then either throws or pushes \<open>now\<close>.
  The assignment of the filtered list happens before the throw, so the state changes on
  rejection too. The result is the outcome paired with the new \<open>requestTimestamps\<close>.
\<close>

definition checkRateLimit :: "GeminiConfig \<Rightarrow> int \<Rightarrow> int list \<Rightarrow> (thrown + unit) \<times> int list" where
  "checkRateLimit cfg now requestTimestamps =
     (let oneMinuteAgo = now - 60000;
          remaining = filter (\<lambda>timestamp. timestamp > oneMinuteAgo) requestTimestamps
      in if int (length remaining) \<ge> maxRequestsPerMinute cfg
         then (Inl (Error (rate_limit_message (waitTime now remaining))), remaining)
         else (Inr (), remaining @ [now]))"


text \<open>
  The states a limiter can be in: it is constructed with no timestamps, and only
  \<open>checkRateLimit\<close> writes the field.
\<close>

inductive reachable :: "GeminiConfig \<Rightarrow> int list \<Rightarrow> bool" for cfg :: GeminiConfig where
  fresh: "reachable cfg []"
| checked: "reachable cfg ts \<Longrightarrow> reachable cfg (snd (checkRateLimit cfg now ts))"


section \<open>Data model (the interfaces of the types module)\<close>

text \<open>
  An optional property is an \<open>option\<close>; \<open>None\<close> is \<open>undefined\<close>. Strings are lists of
  code units below 256. A field name that two interfaces share keeps the source's name in
  the first record and takes a prefix in the others.
\<close>

record ImageGenerationOptions =
  prompt :: string
  width :: "int option"
  height :: "int option"
  aspectRatio :: "string option"
  style :: "string option"
  quality :: "string option"
  numberOfImages :: "int option"
  seed :: "int option"

record ImageModificationOptions =
  imageBase64 :: string
  instructions :: string
  preserveStyle :: "bool option"
  strength :: "rat option"

record ImageAnalysisOptions =
  a_imageBase64 :: string
  analysisType :: "string option"
  detail :: "string option"

record BatchGenerationOptions =
  prompts :: "string list"
  baseOptions :: "ImageGenerationOptions option"

text \<open>
  \<open>StyleTransferOptions\<close> declares three properties. The gateway casts the caller's
  arguments object to it unchecked, so the object may carry a \<open>preserveStyle\<close> of the
  caller's; \<open>s_preserveStyle\<close> stands for that undeclared property. \<open>intensity\<close> is
  restricted to integral numbers.
\<close>

record StyleTransferOptions =
  s_imageBase64 :: string
  s_style :: string
  intensity :: "int option"
  s_preserveStyle :: "bool option"

record Metadata =
  m_prompt :: string
  m_model :: string
  timestamp :: string

record GeneratedImage =
  base64 :: string
  mimeType :: string
  img_width :: "int option"
  img_height :: "int option"
  metadata :: "Metadata option"

record ObjectEntry =
  name :: string
  confidence :: rat

record ColorEntry =
  hex :: string
  color_name :: string
  percentage :: int

record EmotionEntry =
  emotion :: string
  e_confidence :: rat

record Comprehensive =
  c_description :: string
  c_objects :: "ObjectEntry list"
  c_text :: "string list"
  c_colors :: "ColorEntry list"
  c_emotions :: "EmotionEntry list"
  tags :: "string list"

text \<open>The property \<open>text\<close> of \<open>AnalysisResult\<close> is the field \<open>text_lines\<close>.\<close>

record AnalysisResult =
  description :: "string option"
  objects :: "ObjectEntry list option"
  text_lines :: "string list option"
  colors :: "ColorEntry list option"
  emotions :: "EmotionEntry list option"
  comprehensive :: "Comprehensive option"

section \<open>Prompt construction\<close>

text \<open>A string is truthy when it is present and not empty.\<close>

definition truthy :: "string option \<Rightarrow> bool" where
  "truthy s = (case s of None \<Rightarrow> False | Some v \<Rightarrow> v \<noteq> [])"

definition buildGenerationPrompt :: "ImageGenerationOptions \<Rightarrow> string" where
  "buildGenerationPrompt options =
     (let p0 = prompt options;
          p1 = (if truthy (style options) \<and> style options \<noteq> Some ''realistic''
                then p0 @ '' in '' @ the (style options) @ '' style'' else p0);
          p2 = (if truthy (aspectRatio options)
                then p1 @ '' with '' @ the (aspectRatio options) @ '' aspect ratio'' else p1)
      in if quality options = Some ''high'' then p2 @ '', high quality, detailed''
         else if quality options = Some ''ultra''
         then p2 @ '', ultra high quality, extremely detailed, masterpiece''
         else p2)"

text \<open>\<open>x || d\<close> on an optional string.\<close>

definition or_default :: "string option \<Rightarrow> string \<Rightarrow> string" where
  "or_default s d = (if truthy s then the s else d)"

definition buildAnalysisPrompt :: "ImageAnalysisOptions \<Rightarrow> string" where
  "buildAnalysisPrompt options =
     (let type = or_default (analysisType options) ''description'';
          detail = or_default (detail options) ''medium''
      in if type = ''description'' then ''Provide a '' @ detail @ '' detail description of this image.''
         else if type = ''objects''
         then ''Identify and list all objects visible in this image with confidence scores.''
         else if type = ''text'' then ''Extract and transcribe any text visible in this image.''
         else if type = ''colors''
         then ''Analyze the color palette of this image, identifying dominant colors with their hex values.''
         else if type = ''emotions''
         then ''Analyze the emotional content and mood conveyed by this image.''
         else if type = ''comprehensive''
         then ''Provide a comprehensive analysis including description, objects, text, colors, emotions, and relevant tags.''
         else ''Provide a '' @ detail @ '' detail description of this image.'')"

section \<open>The remote service and the clock\<close>

text \<open>
  One call of an operation reads the clock in \<open>checkRateLimit\<close> (\<open>date_now\<close>), sends one
  request to the remote model (\<open>respond\<close>: what \<open>generateContent\<close> and \<open>result.response\<close>
  produce, a response or a thrown value) and, when it builds an image, reads the clock
  again (\<open>iso_now\<close>, the value of \<open>new Date().toISOString()\<close>). Of a response the client
  uses only \<open>text()\<close>, which may throw.
\<close>

record Request =
  req_text :: string
  inlineData :: "string option"

datatype Response = Response (text_of: "thrown + string")

record io =
  date_now :: int
  respond :: "Request \<Rightarrow> thrown + Response"
  iso_now :: string

text \<open>
  The state an operation runs in: the client's field \<open>requestTimestamps\<close> and \<open>script\<close>,
  the behaviour of clock and remote service for the calls to come (\<open>script w 0\<close> is the
  next call's). Each call of \<open>generateImage\<close>, \<open>modifyImage\<close> or \<open>analyzeImage\<close>
  consumes one entry.
\<close>

record world =
  requestTimestamps :: "int list"
  script :: "nat \<Rightarrow> io"

definition next_io :: "world \<Rightarrow> io \<times> world" where
  "next_io w = (script w 0, w\<lparr>script := (\<lambda>n. script w (Suc n))\<rparr>)"

text \<open>\<open>await this.checkRateLimit()\<close> on the world.\<close>

definition admission :: "GeminiConfig \<Rightarrow> io \<Rightarrow> world \<Rightarrow> (thrown + unit) \<times> world" where
  "admission cfg i w =
     (case checkRateLimit cfg (date_now i) (requestTimestamps w) of
        (r, ts) \<Rightarrow> (r, w\<lparr>requestTimestamps := ts\<rparr>))"

text \<open>
  The \<open>catch\<close> block of an operation:
  \<open>throw new Error(`<operation> failed: ${error instanceof Error ? error.message : 'Unknown error'}`)\<close>.
\<close>

definition rethrow :: "string \<Rightarrow> thrown + 'a \<Rightarrow> thrown + 'a" where
  "rethrow label r =
     (case r of
        Inl (Error m) \<Rightarrow> Inl (Error (label @ '' failed: '' @ m))
      | Inl NonError \<Rightarrow> Inl (Error (label @ '' failed: Unknown error''))
      | Inr v \<Rightarrow> Inr v)"

section \<open>The result parser\<close>

subsection \<open>Character classes of the regular expressions\<close>

text \<open>
  \<open>\d\<close>, \<open>\s\<close> (also what \<open>trim()\<close> strips), the line terminators that \<open>.\<close> does not
  match, and the hexadecimal digits, each on code units below 256.
\<close>

definition is_digit :: "char \<Rightarrow> bool" where
  "is_digit c = (c \<in> set ''0123456789'')"

definition is_space :: "char \<Rightarrow> bool" where
  "is_space c = (c \<in> set [CHR 0x09, CHR 0x0A, CHR 0x0B, CHR 0x0C, CHR 0x0D, CHR 0x20, CHR 0xA0])"

definition is_line_terminator :: "char \<Rightarrow> bool" where
  "is_line_terminator c = (c = CHR 0x0A \<or> c = CHR 0x0D)"

definition is_hex :: "char \<Rightarrow> bool" where
  "is_hex c = (c \<in> set ''0123456789ABCDEFabcdef'')"

definition trim :: "string \<Rightarrow> string" where
  "trim s = rev (dropWhile is_space (rev (dropWhile is_space s)))"

text \<open>\<open>text.split('\n')\<close>: never empty, one more piece than there are line feeds.\<close>

fun split_lines :: "string \<Rightarrow> string list" where
  "split_lines [] = [[]]"
| "split_lines (c # cs) =
     (if c = CHR 0x0A then [] # split_lines cs
      else (case split_lines cs of l # ls \<Rightarrow> (c # l) # ls | [] \<Rightarrow> [[c]]))"

text \<open>
  \<open>parseInt\<close> on a run of decimal digits, as the exact natural number (the rounding of
  a run too long for a double is not modelled).
\<close>

definition digit_value :: "char \<Rightarrow> nat" where
  "digit_value c = of_char c - 48"

definition parseInt :: "string \<Rightarrow> nat" where
  "parseInt ds = foldl (\<lambda>acc c. 10 * acc + digit_value c) 0 ds"

subsection \<open>Objects: \<open>/(.+?):\s*(\d+)%/\<close> on each line\<close>

text \<open>
  \<open>(\d+)%\<close> at the head of a string. The digit run is taken whole: a shorter run is
  followed by a digit, never by \<open>%\<close>, so backtracking into it cannot succeed.
\<close>

definition digits_percent :: "string \<Rightarrow> string option" where
  "digits_percent s =
     (let ds = takeWhile is_digit s
      in if ds \<noteq> [] \<and> take 1 (dropWhile is_digit s) = ''%'' then Some ds else None)"

text \<open>
  \<open>:\s*(\d+)%\<close> at the head of a string. The white space is skipped whole for the same
  reason: what follows a shorter run is white space, not a digit.
\<close>

definition colon_digits_percent :: "string \<Rightarrow> string option" where
  "colon_digits_percent s =
     (case s of
        [] \<Rightarrow> None
      | c # r \<Rightarrow> if c = CHR '':'' then digits_percent (dropWhile is_space r) else None)"

text \<open>
  The lazy group \<open>(.+?)\<close> from a fixed start: it takes one character that is not a line
  terminator, tries the rest of the pattern, and takes one more each time that fails.
  \<open>acc\<close> is what the group holds so far. The result is the pair of the two groups.
\<close>

fun lazy_name :: "string \<Rightarrow> string \<Rightarrow> (string \<times> string) option" where
  "lazy_name acc [] = None"
| "lazy_name acc (c # cs) =
     (if is_line_terminator c then None
      else (case colon_digits_percent cs of
              Some ds \<Rightarrow> Some (acc @ [c], ds)
            | None \<Rightarrow> lazy_name (acc @ [c]) cs))"

text \<open>\<open>line.match(...)\<close>: the first start position, from the left, that matches.\<close>

fun match_object :: "string \<Rightarrow> (string \<times> string) option" where
  "match_object [] = None"
| "match_object (c # cs) =
     (case lazy_name [] (c # cs) of
        Some m \<Rightarrow> Some m
      | None \<Rightarrow> match_object cs)"

definition parseObjects :: "string \<Rightarrow> ObjectEntry list" where
  "parseObjects text =
     List.map_filter
       (\<lambda>line. case match_object line of
                  None \<Rightarrow> None
                | Some (g1, g2) \<Rightarrow> Some \<lparr>name = trim g1, confidence = of_nat (parseInt g2) / 100\<rparr>)
       (split_lines text)"

subsection \<open>Text lines\<close>

definition parseText :: "string \<Rightarrow> string list" where
  "parseText text = filter (\<lambda>line. length (trim line) > 0) (split_lines text)"

subsection \<open>Colors: \<open>/#[0-9A-Fa-f]{6}/g\<close>\<close>

text \<open>All matches from left to right, the scan resuming after each match.\<close>

function scan_hex :: "string \<Rightarrow> string list" where
  "scan_hex [] = []"
| "scan_hex (c # cs) =
     (if c = CHR ''#'' \<and> length (takeWhile is_hex (take 6 cs)) = 6
      then (c # take 6 cs) # scan_hex (drop 6 cs)
      else scan_hex cs)"
  by pat_completeness auto
termination
  by (relation "measure length") auto

definition parseColors :: "string \<Rightarrow> ColorEntry list" where
  "parseColors text = map (\<lambda>h. \<lparr>hex = h, color_name = ''Unknown'', percentage = 0\<rparr>) (scan_hex text)"

subsection \<open>Emotions: \<open>new RegExp(`${emotion}.*?(\\d+)%`, 'i')\<close> on the whole text\<close>

text \<open>
  Case-insensitive comparison of a pattern letter with a code unit. The seven words are
  lower-case ASCII; without the \<open>u\<close> flag a code unit from 128 on is never folded onto an
  ASCII letter, so a pattern letter matches itself and its ASCII capital only.
\<close>

definition upper_ascii :: "char \<Rightarrow> char" where
  "upper_ascii c =
     (case map_of (zip ''abcdefghijklmnopqrstuvwxyz'' ''ABCDEFGHIJKLMNOPQRSTUVWXYZ'') c of
        Some u \<Rightarrow> u
      | None \<Rightarrow> c)"

fun strip_word :: "string \<Rightarrow> string \<Rightarrow> string option" where
  "strip_word [] s = Some s"
| "strip_word (p # ps) [] = None"
| "strip_word (p # ps) (c # cs) =
     (if upper_ascii p = upper_ascii c then strip_word ps cs else None)"

text \<open>
  The lazy \<open>.*?\<close> followed by \<open>(\d+)%\<close>: first with nothing skipped, then with one more
  character, as long as the skipped characters are not line terminators.
\<close>

fun lazy_skip :: "string \<Rightarrow> string option" where
  "lazy_skip [] = digits_percent []"
| "lazy_skip (c # cs) =
     (case digits_percent (c # cs) of
        Some ds \<Rightarrow> Some ds
      | None \<Rightarrow> if is_line_terminator c then None else lazy_skip cs)"

definition emotion_at :: "string \<Rightarrow> string \<Rightarrow> string option" where
  "emotion_at word s = (case strip_word word s of None \<Rightarrow> None | Some rest \<Rightarrow> lazy_skip rest)"

fun match_emotion :: "string \<Rightarrow> string \<Rightarrow> string option" where
  "match_emotion word [] = emotion_at word []"
| "match_emotion word (c # cs) =
     (case emotion_at word (c # cs) of
        Some ds \<Rightarrow> Some ds
      | None \<Rightarrow> match_emotion word cs)"

definition emotion_words :: "string list" where
  "emotion_words = [''happy'', ''sad'', ''angry'', ''surprised'', ''fear'', ''disgust'', ''neutral'']"

definition parseEmotions :: "string \<Rightarrow> EmotionEntry list" where
  "parseEmotions text =
     List.map_filter
       (\<lambda>word. case match_emotion word text of
                  None \<Rightarrow> None
                | Some g \<Rightarrow> Some \<lparr>emotion = word, e_confidence = of_nat (parseInt g) / 100\<rparr>)
       emotion_words"

subsection \<open>Comprehensive\<close>

definition parseComprehensive :: "string \<Rightarrow> Comprehensive" where
  "parseComprehensive text =
     \<lparr>c_description = text, c_objects = [], c_text = [], c_colors = [], c_emotions = [], tags = []\<rparr>"

subsection \<open>\<open>parseAnalysisResult\<close>\<close>

text \<open>
  The five extraction steps the \<open>switch\<close> calls inside its \<open>try\<close> block, each either
  returning or throwing. \<open>parseAnalysisResult_with\<close> is the function for arbitrary
  steps; the source's steps never throw on a string.
\<close>

record extractors =
  x_objects :: "string \<Rightarrow> thrown + ObjectEntry list"
  x_text :: "string \<Rightarrow> thrown + string list"
  x_colors :: "string \<Rightarrow> thrown + ColorEntry list"
  x_emotions :: "string \<Rightarrow> thrown + EmotionEntry list"
  x_comprehensive :: "string \<Rightarrow> thrown + Comprehensive"

definition empty_result :: AnalysisResult where
  "empty_result = \<lparr>description = None, objects = None, text_lines = None, colors = None,
     emotions = None, comprehensive = None\<rparr>"

text \<open>
  The body of the \<open>try\<close> block. The right-hand side of each assignment is evaluated
  before the property is written, so a step that throws leaves \<open>result\<close> empty.
\<close>

definition parse_switch :: "extractors \<Rightarrow> string \<Rightarrow> string \<Rightarrow> thrown + AnalysisResult" where
  "parse_switch ex text atype =
     (if atype = ''description'' then Inr (empty_result\<lparr>description := Some text\<rparr>)
      else if atype = ''objects''
      then map_sum id (\<lambda>v. empty_result\<lparr>objects := Some v\<rparr>) (x_objects ex text)
      else if atype = ''text''
      then map_sum id (\<lambda>v. empty_result\<lparr>text_lines := Some v\<rparr>) (x_text ex text)
      else if atype = ''colors''
      then map_sum id (\<lambda>v. empty_result\<lparr>colors := Some v\<rparr>) (x_colors ex text)
      else if atype = ''emotions''
      then map_sum id (\<lambda>v. empty_result\<lparr>emotions := Some v\<rparr>) (x_emotions ex text)
      else if atype = ''comprehensive''
      then map_sum id (\<lambda>v. empty_result\<lparr>comprehensive := Some v\<rparr>) (x_comprehensive ex text)
      else Inr (empty_result\<lparr>description := Some text\<rparr>))"

definition parseAnalysisResult_with ::
    "extractors \<Rightarrow> string \<Rightarrow> string \<Rightarrow> thrown + AnalysisResult" where
  "parseAnalysisResult_with ex text atype =
     (case parse_switch ex text atype of
        Inr result \<Rightarrow> Inr result
      | Inl error \<Rightarrow> Inr (empty_result\<lparr>description := Some text\<rparr>))"

definition source_extractors :: extractors where
  "source_extractors =
     \<lparr>x_objects = (\<lambda>t. Inr (parseObjects t)), x_text = (\<lambda>t. Inr (parseText t)),
      x_colors = (\<lambda>t. Inr (parseColors t)), x_emotions = (\<lambda>t. Inr (parseEmotions t)),
      x_comprehensive = (\<lambda>t. Inr (parseComprehensive t))\<rparr>"

definition parseAnalysisResult :: "string \<Rightarrow> string \<Rightarrow> thrown + AnalysisResult" where
  "parseAnalysisResult = parseAnalysisResult_with source_extractors"

text \<open>The field groups of a result that are present.\<close>

datatype field_group = Description | Objects | Text | Colors | Emotions | Composite

definition populated :: "AnalysisResult \<Rightarrow> field_group set" where
  "populated r =
     (if description r = None then {} else {Description}) \<union>
     (if objects r = None then {} else {Objects}) \<union>
     (if text_lines r = None then {} else {Text}) \<union>
     (if colors r = None then {} else {Colors}) \<union>
     (if emotions r = None then {} else {Emotions}) \<union>
     (if comprehensive r = None then {} else {Composite})"

section \<open>The client's operations\<close>

definition mock_base64 :: string where
  "mock_base64 =
     ''data:image/png;base64,iVBORw0KGgoAAAANSUhEUgAAAAEAAAABCAYAAAAfFcSJAAAADUlEQVR42mNkYPhfDwAChwGA60e6kgAAAABJRU5ErkJggg==''"

text \<open>
  \<open>extractImagesFromResponse(_response, options)\<close> reads \<open>options.prompt\<close> only, which is
  the last argument here. Nothing inside its \<open>try\<close> block throws, so the list always
  receives the one mock image.
\<close>

definition extractImagesFromResponse ::
    "GeminiConfig \<Rightarrow> io \<Rightarrow> Response \<Rightarrow> string \<Rightarrow> GeneratedImage list" where
  "extractImagesFromResponse cfg i response options_prompt =
     (let mockImage =
            \<lparr>base64 = mock_base64, mimeType = ''image/png'', img_width = None, img_height = None,
             metadata = Some \<lparr>m_prompt = options_prompt, m_model = model cfg, timestamp = iso_now i\<rparr>\<rparr>
      in [] @ [mockImage])"

definition generateImage ::
    "GeminiConfig \<Rightarrow> ImageGenerationOptions \<Rightarrow> world \<Rightarrow> (thrown + GeneratedImage list) \<times> world" where
  "generateImage cfg options w0 =
     (case next_io w0 of (i, w1) \<Rightarrow>
        (case admission cfg i w1 of
           (Inl e, w2) \<Rightarrow> (Inl e, w2)
         | (Inr u, w2) \<Rightarrow>
             (rethrow ''Image generation''
                (case respond i \<lparr>req_text = buildGenerationPrompt options, inlineData = None\<rparr> of
                   Inl e \<Rightarrow> Inl e
                 | Inr response \<Rightarrow> Inr (extractImagesFromResponse cfg i response (prompt options))),
              w2)))"

definition buildModificationPrompt :: "ImageModificationOptions \<Rightarrow> string" where
  "buildModificationPrompt options =
     (let p = ''Modify this image according to the following instructions: '' @ instructions options
      in if preserveStyle options = Some True
         then p @ '' Please preserve the original artistic style and composition.''
         else p)"

text \<open>\<open>images[0]\<close>: \<open>undefined\<close> on an empty array.\<close>

definition first_image :: "GeneratedImage list \<Rightarrow> GeneratedImage option" where
  "first_image images = (case images of [] \<Rightarrow> None | x # rest \<Rightarrow> Some x)"

definition modifyImage ::
    "GeminiConfig \<Rightarrow> ImageModificationOptions \<Rightarrow> world \<Rightarrow> (thrown + GeneratedImage option) \<times> world" where
  "modifyImage cfg options w0 =
     (case next_io w0 of (i, w1) \<Rightarrow>
        (case admission cfg i w1 of
           (Inl e, w2) \<Rightarrow> (Inl e, w2)
         | (Inr u, w2) \<Rightarrow>
             (rethrow ''Image modification''
                (case respond i \<lparr>req_text = buildModificationPrompt options,
                                 inlineData = Some (imageBase64 options)\<rparr> of
                   Inl e \<Rightarrow> Inl e
                 | Inr response \<Rightarrow>
                     Inr (first_image (extractImagesFromResponse cfg i response (instructions options)))),
              w2)))"

definition analyzeImage ::
    "GeminiConfig \<Rightarrow> ImageAnalysisOptions \<Rightarrow> world \<Rightarrow> (thrown + AnalysisResult) \<times> world" where
  "analyzeImage cfg options w0 =
     (case next_io w0 of (i, w1) \<Rightarrow>
        (case admission cfg i w1 of
           (Inl e, w2) \<Rightarrow> (Inl e, w2)
         | (Inr u, w2) \<Rightarrow>
             (rethrow ''Image analysis''
                (case respond i \<lparr>req_text = buildAnalysisPrompt options,
                                 inlineData = Some (a_imageBase64 options)\<rparr> of
                   Inl e \<Rightarrow> Inl e
                 | Inr response \<Rightarrow>
                     (case text_of response of
                        Inl e \<Rightarrow> Inl e
                      | Inr text \<Rightarrow>
                          parseAnalysisResult text (or_default (analysisType options) ''description''))),
              w2)))"

subsection \<open>\<open>generateBatch\<close>\<close>

text \<open>
  \<open>{...options.baseOptions, prompt}\<close>: the base options, or none of them, with the
  prompt of this iteration.
\<close>

definition no_options :: ImageGenerationOptions where
  "no_options = \<lparr>prompt = [], width = None, height = None, aspectRatio = None, style = None,
     quality = None, numberOfImages = None, seed = None\<rparr>"

definition imageOptions :: "BatchGenerationOptions \<Rightarrow> string \<Rightarrow> ImageGenerationOptions" where
  "imageOptions options p =
     (case baseOptions options of None \<Rightarrow> no_options | Some b \<Rightarrow> b)\<lparr>prompt := p\<rparr>"

text \<open>
  The \<open>for\<close> loop, for any single-prompt method \<open>gen\<close> on any state: \<open>results\<close> is the
  array built so far, and a call that throws ends the loop with that thrown value.
\<close>

fun batch_loop ::
    "(ImageGenerationOptions \<Rightarrow> 's \<Rightarrow> (thrown + GeneratedImage list) \<times> 's) \<Rightarrow>
     BatchGenerationOptions \<Rightarrow> string list \<Rightarrow> GeneratedImage list \<Rightarrow> 's \<Rightarrow>
     (thrown + GeneratedImage list) \<times> 's" where
  "batch_loop gen options [] results s = (Inr results, s)"
| "batch_loop gen options (p # ps) results s =
     (case gen (imageOptions options p) s of
        (Inl e, s') \<Rightarrow> (Inl e, s')
      | (Inr images, s') \<Rightarrow> batch_loop gen options ps (results @ images) s')"

definition generateBatch_via ::
    "(ImageGenerationOptions \<Rightarrow> 's \<Rightarrow> (thrown + GeneratedImage list) \<times> 's) \<Rightarrow>
     BatchGenerationOptions \<Rightarrow> 's \<Rightarrow> (thrown + GeneratedImage list) \<times> 's" where
  "generateBatch_via gen options s = batch_loop gen options (prompts options) [] s"

definition generateBatch ::
    "GeminiConfig \<Rightarrow> BatchGenerationOptions \<Rightarrow> world \<Rightarrow> (thrown + GeneratedImage list) \<times> world" where
  "generateBatch cfg = generateBatch_via (generateImage cfg)"

text \<open>
  A recorder around a method: it runs the method unchanged and appends the argument and
  the outcome of the call to a log kept beside the state.
\<close>

definition spy ::
    "('a \<Rightarrow> 's \<Rightarrow> 'r \<times> 's) \<Rightarrow> 'a \<Rightarrow> 's \<times> ('a \<times> 'r) list \<Rightarrow> 'r \<times> ('s \<times> ('a \<times> 'r) list)" where
  "spy f a = (\<lambda>(s, log). case f a s of (r, s') \<Rightarrow> (r, (s', log @ [(a, r)])))"

subsection \<open>\<open>applyStyleTransfer\<close>\<close>

text \<open>
  The template literal of \<open>applyStyleTransfer\<close>. \<open>options.intensity ? ... : ''\<close> takes the
  second branch for an absent intensity and for the number 0.
\<close>

definition style_instructions :: "StyleTransferOptions \<Rightarrow> string" where
  "style_instructions options =
     ''Apply '' @ s_style options @ '' style to this image. '' @
     (case intensity options of
        None \<Rightarrow> ''''
      | Some n \<Rightarrow> if n = 0 then ''''
                 else ''Use '' @ show_int n @ ''% intensity for the style transfer.'')"

text \<open>The object literal handed to \<open>modifyImage\<close>.\<close>

definition style_request :: "StyleTransferOptions \<Rightarrow> ImageModificationOptions" where
  "style_request options =
     \<lparr>imageBase64 = s_imageBase64 options, instructions = style_instructions options,
      preserveStyle = Some False, strength = None\<rparr>"

definition applyStyleTransfer ::
    "GeminiConfig \<Rightarrow> StyleTransferOptions \<Rightarrow> world \<Rightarrow> (thrown + GeneratedImage option) \<times> world" where
  "applyStyleTransfer cfg options = modifyImage cfg (style_request options)"

section \<open>The gateway\<close>

datatype content_item = TextContent string | ImageContent (data: string) (mime: string)

record envelope =
  content :: "content_item list"
  isError :: "bool option"

text \<open>
  Two library functions whose results are used in the analysis text only and are left as
  parameters: \<open>(x * 100).toFixed(1)\<close> on a confidence \<open>x\<close>, and
  \<open>JSON.stringify(c, null, 2)\<close> on a comprehensive composite.
\<close>

record runtime =
  percent_toFixed1 :: "rat \<Rightarrow> string"
  JSON_stringify :: "Comprehensive \<Rightarrow> string"

definition image_item :: "GeneratedImage \<Rightarrow> content_item" where
  "image_item img = ImageContent (base64 img) (mimeType img)"

definition quoted :: "string \<Rightarrow> string" where
  "quoted s = [CHR 0x22] @ s @ [CHR 0x22]"

definition handleGenerateImage ::
    "GeminiConfig \<Rightarrow> ImageGenerationOptions \<Rightarrow> world \<Rightarrow> (thrown + envelope) \<times> world" where
  "handleGenerateImage cfg options w =
     (case generateImage cfg options w of
        (Inl e, w') \<Rightarrow> (Inl e, w')
      | (Inr images, w') \<Rightarrow>
          (Inr \<lparr>content =
                  TextContent (''Successfully generated '' @ show_nat (length images) @
                               '' image(s) for prompt: '' @ quoted (prompt options))
                  # map image_item images,
                isError = None\<rparr>, w'))"

text \<open>
  \<open>image.base64\<close> on \<open>undefined\<close> throws a \<open>TypeError\<close>, which is an \<open>Error\<close>.
\<close>

definition read_image :: "GeneratedImage option \<Rightarrow> thrown + content_item" where
  "read_image img =
     (case img of
        None \<Rightarrow> Inl (Error ''Cannot read properties of undefined (reading 'base64')'')
      | Some x \<Rightarrow> Inr (image_item x))"

definition handleModifyImage ::
    "GeminiConfig \<Rightarrow> ImageModificationOptions \<Rightarrow> world \<Rightarrow> (thrown + envelope) \<times> world" where
  "handleModifyImage cfg options w =
     (case modifyImage cfg options w of
        (Inl e, w') \<Rightarrow> (Inl e, w')
      | (Inr img, w') \<Rightarrow>
          (case read_image img of
             Inl e \<Rightarrow> (Inl e, w')
           | Inr item \<Rightarrow>
               (Inr \<lparr>content =
                       [TextContent (''Successfully modified image with instructions: '' @
                                     quoted (instructions options)),
                        item],
                     isError = None\<rparr>, w')))"

definition join :: "string \<Rightarrow> string list \<Rightarrow> string" where
  "join sep xs = (case xs of [] \<Rightarrow> [] | y # ys \<Rightarrow> y @ concat (map (\<lambda>z. sep @ z) ys))"

definition nl :: string where
  "nl = [CHR 0x0A]"

definition analysis_text :: "runtime \<Rightarrow> AnalysisResult \<Rightarrow> string" where
  "analysis_text js analysis =
     (let t1 = (if truthy (description analysis)
                then ''Description: '' @ the (description analysis) @ nl @ nl else '''');
          t2 = (case objects analysis of
                  None \<Rightarrow> t1
                | Some os \<Rightarrow>
                    if length os > 0
                    then t1 @ ''Objects detected:'' @ nl @
                         concat (map (\<lambda>obj. ''- '' @ name obj @ '' (confidence: '' @
                                   percent_toFixed1 js (confidence obj) @ ''%)'' @ nl) os) @ nl
                    else t1);
          t3 = (case text_lines analysis of
                  None \<Rightarrow> t2
                | Some ls \<Rightarrow>
                    if length ls > 0 then t2 @ ''Text found: '' @ join '', '' ls @ nl @ nl else t2);
          t4 = (case colors analysis of
                  None \<Rightarrow> t3
                | Some cs \<Rightarrow>
                    if length cs > 0
                    then t3 @ ''Dominant colors:'' @ nl @
                         concat (map (\<lambda>color. ''- '' @ color_name color @ '' ('' @ hex color @
                                   '') - '' @ show_int (percentage color) @ ''%'' @ nl) cs) @ nl
                    else t3);
          t5 = (case emotions analysis of
                  None \<Rightarrow> t4
                | Some es \<Rightarrow>
                    if length es > 0
                    then t4 @ ''Emotions detected:'' @ nl @
                         concat (map (\<lambda>e. ''- '' @ emotion e @ '' (confidence: '' @
                                   percent_toFixed1 js (e_confidence e) @ ''%)'' @ nl) es)
                    else t4);
          resultText = (case comprehensive analysis of
                          None \<Rightarrow> t5
                        | Some c \<Rightarrow> JSON_stringify js c)
      in if trim resultText \<noteq> [] then trim resultText
         else ''Analysis completed but no specific results were extracted.'')"

definition handleAnalyzeImage ::
    "runtime \<Rightarrow> GeminiConfig \<Rightarrow> ImageAnalysisOptions \<Rightarrow> world \<Rightarrow> (thrown + envelope) \<times> world" where
  "handleAnalyzeImage js cfg options w =
     (case analyzeImage cfg options w of
        (Inl e, w') \<Rightarrow> (Inl e, w')
      | (Inr analysis, w') \<Rightarrow>
          (Inr \<lparr>content = [TextContent (analysis_text js analysis)], isError = None\<rparr>, w'))"

definition handleBatchGenerate ::
    "GeminiConfig \<Rightarrow> BatchGenerationOptions \<Rightarrow> world \<Rightarrow> (thrown + envelope) \<times> world" where
  "handleBatchGenerate cfg options w =
     (case generateBatch cfg options w of
        (Inl e, w') \<Rightarrow> (Inl e, w')
      | (Inr images, w') \<Rightarrow>
          (Inr \<lparr>content =
                  TextContent (''Successfully generated '' @ show_nat (length images) @
                               '' images from '' @ show_nat (length (prompts options)) @ '' prompts'')
                  # map image_item images,
                isError = None\<rparr>, w'))"

definition handleStyleTransfer ::
    "GeminiConfig \<Rightarrow> StyleTransferOptions \<Rightarrow> world \<Rightarrow> (thrown + envelope) \<times> world" where
  "handleStyleTransfer cfg options w =
     (case applyStyleTransfer cfg options w of
        (Inl e, w') \<Rightarrow> (Inl e, w')
      | (Inr img, w') \<Rightarrow>
          (case read_image img of
             Inl e \<Rightarrow> (Inl e, w')
           | Inr item \<Rightarrow>
               (Inr \<lparr>content =
                       [TextContent (''Successfully applied '' @ s_style options @ '' style to the image''),
                        item],
                     isError = None\<rparr>, w')))"

text \<open>
  The arguments object of a tool call. \<open>args as unknown as T\<close> checks nothing, so the
  object is given by what it is under each of the five casts; a handler reads the one
  view it was written for.
\<close>

record arguments =
  asGeneration :: ImageGenerationOptions
  asModification :: ImageModificationOptions
  asAnalysis :: ImageAnalysisOptions
  asBatch :: BatchGenerationOptions
  asStyleTransfer :: StyleTransferOptions

definition catalogue :: "string list" where
  "catalogue = [''generateImage'', ''modifyImage'', ''analyzeImage'', ''batchGenerate'', ''applyStyleTransfer'']"

text \<open>The \<open>switch\<close> inside the \<open>try\<close> block of the tool-call handler.\<close>

definition dispatch ::
    "runtime \<Rightarrow> GeminiConfig \<Rightarrow> string \<Rightarrow> arguments \<Rightarrow> world \<Rightarrow> (thrown + envelope) \<times> world" where
  "dispatch js cfg tool args w =
     (if tool = ''generateImage'' then handleGenerateImage cfg (asGeneration args) w
      else if tool = ''modifyImage'' then handleModifyImage cfg (asModification args) w
      else if tool = ''analyzeImage'' then handleAnalyzeImage js cfg (asAnalysis args) w
      else if tool = ''batchGenerate'' then handleBatchGenerate cfg (asBatch args) w
      else if tool = ''applyStyleTransfer'' then handleStyleTransfer cfg (asStyleTransfer args) w
      else (Inl (Error (''Unknown tool: '' @ tool)), w))"

text \<open>
  The \<open>catch\<close> block:
  \<open>error instanceof Error ? error.message : 'Unknown error occurred'\<close>.
\<close>

definition error_envelope :: "thrown \<Rightarrow> envelope" where
  "error_envelope error =
     (let errorMessage = (case error of Error m \<Rightarrow> m | NonError \<Rightarrow> ''Unknown error occurred'')
      in \<lparr>content = [TextContent (''Error: '' @ errorMessage)], isError = Some True\<rparr>)"

text \<open>
  The handler registered for tool calls. Its result type keeps the left summand, a
  thrown value that would leave the handler.
\<close>

definition callTool ::
    "runtime \<Rightarrow> GeminiConfig \<Rightarrow> string \<Rightarrow> arguments \<Rightarrow> world \<Rightarrow> (thrown + envelope) \<times> world" where
  "callTool js cfg tool args w =
     (case dispatch js cfg tool args w of
        (Inr response, w') \<Rightarrow> (Inr response, w')
      | (Inl error, w') \<Rightarrow> (Inr (error_envelope error), w'))"

section \<open>Example inputs\<close>

definition cfg1 :: GeminiConfig where
  "cfg1 = \<lparr>apiKey = ''k'', model = ''m'', safetyLevel = ''MEDIUM'', maxRequestsPerMinute = 1\<rparr>"


definition cfg10 :: GeminiConfig where
  "cfg10 = \<lparr>apiKey = ''k'', model = ''m'', safetyLevel = ''MEDIUM'', maxRequestsPerMinute = 10\<rparr>"

definition failing_objects :: extractors where
  "failing_objects = source_extractors\<lparr>x_objects := (\<lambda>t. Inl (Error ''boom''))\<rparr>"

definition cyberpunk0 :: StyleTransferOptions where
  "cyberpunk0 = \<lparr>s_imageBase64 = ''aGVsbG8='', s_style = ''cyberpunk'', intensity = Some 0,
     s_preserveStyle = None\<rparr>"

definition calm_io :: "nat \<Rightarrow> io" where
  "calm_io n = \<lparr>date_now = 1000 * (int n + 1), respond = (\<lambda>req. Inr (Response (Inr ''a cat''))),
     iso_now = ''2025-01-01T00:00:00.000Z''\<rparr>"

definition world0 :: world where
  "world0 = \<lparr>requestTimestamps = [], script = calm_io\<rparr>"

definition abc :: BatchGenerationOptions where
  "abc = \<lparr>prompts = [''a'', ''b'', ''c''], baseOptions = None\<rparr>"

definition cfg0 :: GeminiConfig where
  "cfg0 = \<lparr>apiKey = ''k'', model = ''m'', safetyLevel = ''MEDIUM'', maxRequestsPerMinute = 0\<rparr>"

definition js0 :: runtime where
  "js0 = \<lparr>percent_toFixed1 = (\<lambda>x. ''0.0''), JSON_stringify = (\<lambda>c. ''{}'')\<rparr>"

definition some_args :: arguments where
  "some_args =
     \<lparr>asGeneration = no_options\<lparr>prompt := ''a cat''\<rparr>,
      asModification = \<lparr>imageBase64 = ''aGk='', instructions = ''brighter'', preserveStyle = None, strength = None\<rparr>,
      asAnalysis = \<lparr>a_imageBase64 = ''aGk='', analysisType = None, detail = None\<rparr>,
      asBatch = \<lparr>prompts = [''a'', ''b'', ''c''], baseOptions = None\<rparr>,
      asStyleTransfer = \<lparr>s_imageBase64 = ''aGk='', s_style = ''cyberpunk'', intensity = Some 0, s_preserveStyle = None\<rparr>\<rparr>"

section \<open>Properties of the rate limiter\<close>



lemma check_admits:
  "int (length (filter (\<lambda>t. t > now - 60000) ts)) < maxRequestsPerMinute cfg \<Longrightarrow>
   checkRateLimit cfg now ts = (Inr (), filter (\<lambda>t. t > now - 60000) ts @ [now])"
  by (simp add: checkRateLimit_def Let_def)







lemma reachable_nonempty_limit:
  "reachable cfg ts \<Longrightarrow> ts \<noteq> [] \<Longrightarrow> 0 < maxRequestsPerMinute cfg"
proof (induction rule: reachable.induct)
  case fresh
  then show ?case by simp
next
  case (checked ts now)
  show ?case
  proof (cases "ts = []")
    case True
    then show ?thesis using checked.prems
      by (auto simp: checkRateLimit_def Let_def split: if_splits)
  next
    case False
    then show ?thesis using checked.IH by simp
  qed
qed

text \<open>
  Claim C3. After an admission check at clock reading \<open>now\<close>, admitted or rejected,
  every timestamp left in the sequence is less than 60000 ms old relative to \<open>now\<close>.
  Consequently, for a limiter that has recorded at least one call, a check made more than
  60 seconds after every recorded call succeeds and leaves only its own timestamp, however
  full the window was before.
\<close>

theorem pruning_invariant:
  "(\<forall>u\<in>set (snd (checkRateLimit cfg now ts)). now - u < 60000)
   \<and> (reachable cfg ts \<and> ts \<noteq> [] \<and> (\<forall>u\<in>set ts. 60000 < now - u)
        \<longrightarrow> checkRateLimit cfg now ts = (Inr (), [now]))"
proof (intro conjI impI)
  show "\<forall>u\<in>set (snd (checkRateLimit cfg now ts)). now - u < 60000"
    by (auto simp: checkRateLimit_def Let_def)
next
  assume h: "reachable cfg ts \<and> ts \<noteq> [] \<and> (\<forall>u\<in>set ts. 60000 < now - u)"
  then have pos: "0 < maxRequestsPerMinute cfg"
    using reachable_nonempty_limit by blast
  have "filter (\<lambda>x. x > now - 60000) ts = []"
    using h by (auto simp: filter_empty_conv)
  then show "checkRateLimit cfg now ts = (Inr (), [now])"
    using check_admits [of now ts cfg] pos by simp
qed

theorem pruning_invariant_witness:
  "5000 \<in> set (snd (checkRateLimit cfg1 5000 [])) \<and> (5000::int) - 5000 < 60000
   \<and> reachable cfg1 [5000] \<and> [5000::int] \<noteq> [] \<and> (60000::int) < 70000 - 5000
   \<and> checkRateLimit cfg1 70000 [5000] = (Inr (), [70000])"
proof -
  have step: "snd (checkRateLimit cfg1 5000 []) = [5000]"
    by (simp add: checkRateLimit_def cfg1_def)
  have r: "reachable cfg1 [5000]"
    using reachable.checked [OF reachable.fresh, of cfg1 5000] by (simp only: step)
  show ?thesis
    using pruning_invariant [of cfg1 70000 "[5000]"] pruning_invariant [of cfg1 5000 "[]"] r step
    by simp
qed

section \<open>Properties of the result parser\<close>

lemma parse_switch_singleton:
  "parse_switch ex text ty = Inr r \<Longrightarrow> \<exists>g. populated r = {g}"
  by (auto simp: parse_switch_def populated_def empty_result_def map_sum_def
      split: if_splits sum.splits)

lemma fallback_populated: "populated (empty_result\<lparr>description := Some text\<rparr>) = {Description}"
  by (simp add: populated_def empty_result_def)

text \<open>
  Claim C2. For every raw text, every analysis type (recognised or not) and every behaviour
  of the five extraction steps, \<open>parseAnalysisResult\<close> returns a result and does not
  throw, and the result has exactly one field group present. When the \<open>try\<close> block
  throws, in particular when the step selected by the analysis type throws, the result is
  the record whose only field is \<open>description\<close>, holding the raw text. The parser with
  the source's own steps returns for every input.
\<close>

theorem parse_never_throws:
  "(\<exists>r g. parseAnalysisResult_with ex text ty = Inr r \<and> populated r = {g})
   \<and> (\<forall>e. parse_switch ex text ty = Inl e \<longrightarrow>
          parseAnalysisResult_with ex text ty = Inr (empty_result\<lparr>description := Some text\<rparr>))
   \<and> (\<forall>e. x_objects ex text = Inl e \<longrightarrow>
          parseAnalysisResult_with ex text ''objects'' = Inr (empty_result\<lparr>description := Some text\<rparr>))
   \<and> (\<forall>e. x_text ex text = Inl e \<longrightarrow>
          parseAnalysisResult_with ex text ''text'' = Inr (empty_result\<lparr>description := Some text\<rparr>))
   \<and> (\<forall>e. x_colors ex text = Inl e \<longrightarrow>
          parseAnalysisResult_with ex text ''colors'' = Inr (empty_result\<lparr>description := Some text\<rparr>))
   \<and> (\<forall>e. x_emotions ex text = Inl e \<longrightarrow>
          parseAnalysisResult_with ex text ''emotions'' = Inr (empty_result\<lparr>description := Some text\<rparr>))
   \<and> (\<forall>e. x_comprehensive ex text = Inl e \<longrightarrow>
          parseAnalysisResult_with ex text ''comprehensive'' = Inr (empty_result\<lparr>description := Some text\<rparr>))
   \<and> (\<exists>r. parseAnalysisResult text ty = Inr r)"
proof -
  have total: "\<exists>r g. parseAnalysisResult_with ex' text ty = Inr r \<and> populated r = {g}" for ex'
  proof (cases "parse_switch ex' text ty")
    case (Inl e)
    then show ?thesis
      by (simp add: parseAnalysisResult_with_def fallback_populated)
  next
    case (Inr r)
    then show ?thesis
      using parse_switch_singleton [OF Inr] by (simp add: parseAnalysisResult_with_def)
  qed
  have caught: "parseAnalysisResult_with ex text ty' = Inr (empty_result\<lparr>description := Some text\<rparr>)"
    if "parse_switch ex text ty' = Inl e" for e ty'
    using that by (simp add: parseAnalysisResult_with_def)
  have steps:
    "x_objects ex text = Inl e \<Longrightarrow> parse_switch ex text ''objects'' = Inl e"
    "x_text ex text = Inl e \<Longrightarrow> parse_switch ex text ''text'' = Inl e"
    "x_colors ex text = Inl e \<Longrightarrow> parse_switch ex text ''colors'' = Inl e"
    "x_emotions ex text = Inl e \<Longrightarrow> parse_switch ex text ''emotions'' = Inl e"
    "x_comprehensive ex text = Inl e \<Longrightarrow> parse_switch ex text ''comprehensive'' = Inl e" for e
    by (simp_all add: parse_switch_def)
  have src: "\<exists>r. parseAnalysisResult text ty = Inr r"
    using total [of source_extractors] by (auto simp: parseAnalysisResult_def)
  show ?thesis
    using total [of ex] caught steps src by blast
qed

theorem parse_never_throws_witness:
  "x_objects failing_objects ''cat: 85%'' = Inl (Error ''boom'')
   \<and> parseAnalysisResult_with failing_objects ''cat: 85%'' ''objects'' =
       Inr \<lparr>description = Some ''cat: 85%'', objects = None, text_lines = None, colors = None,
            emotions = None, comprehensive = None\<rparr>"
  using parse_never_throws [of failing_objects "''cat: 85%''" "''objects''"]
  by (simp add: failing_objects_def empty_result_def)

lemma source_switch:
  "parse_switch source_extractors text ty =
     Inr (if ty = ''description'' then empty_result\<lparr>description := Some text\<rparr>
          else if ty = ''objects'' then empty_result\<lparr>objects := Some (parseObjects text)\<rparr>
          else if ty = ''text'' then empty_result\<lparr>text_lines := Some (parseText text)\<rparr>
          else if ty = ''colors'' then empty_result\<lparr>colors := Some (parseColors text)\<rparr>
          else if ty = ''emotions'' then empty_result\<lparr>emotions := Some (parseEmotions text)\<rparr>
          else if ty = ''comprehensive'' then empty_result\<lparr>comprehensive := Some (parseComprehensive text)\<rparr>
          else empty_result\<lparr>description := Some text\<rparr>)"
  by (simp add: parse_switch_def source_extractors_def)

lemma source_parse:
  "parseAnalysisResult text ty =
     Inr (if ty = ''description'' then empty_result\<lparr>description := Some text\<rparr>
          else if ty = ''objects'' then empty_result\<lparr>objects := Some (parseObjects text)\<rparr>
          else if ty = ''text'' then empty_result\<lparr>text_lines := Some (parseText text)\<rparr>
          else if ty = ''colors'' then empty_result\<lparr>colors := Some (parseColors text)\<rparr>
          else if ty = ''emotions'' then empty_result\<lparr>emotions := Some (parseEmotions text)\<rparr>
          else if ty = ''comprehensive'' then empty_result\<lparr>comprehensive := Some (parseComprehensive text)\<rparr>
          else empty_result\<lparr>description := Some text\<rparr>)"
  by (simp only: parseAnalysisResult_def parseAnalysisResult_with_def source_switch sum.case)

text \<open>
  Claim C6. The result of \<open>parseAnalysisResult\<close> has exactly one field group present,
  the one of the requested analysis type: \<open>description\<close> for \<open>description\<close> and for every
  unrecognised type, \<open>objects\<close>, \<open>text\<close>, \<open>colors\<close>, \<open>emotions\<close> for their types, and for
  \<open>comprehensive\<close> the composite alone, the other five groups absent.
\<close>

theorem one_field_group:
  "\<exists>r. parseAnalysisResult text ty = Inr r
     \<and> (ty = ''description'' \<longrightarrow> populated r = {Description})
     \<and> (ty = ''objects'' \<longrightarrow> populated r = {Objects})
     \<and> (ty = ''text'' \<longrightarrow> populated r = {Text})
     \<and> (ty = ''colors'' \<longrightarrow> populated r = {Colors})
     \<and> (ty = ''emotions'' \<longrightarrow> populated r = {Emotions})
     \<and> (ty = ''comprehensive'' \<longrightarrow> populated r = {Composite})
     \<and> (ty \<notin> set [''description'', ''objects'', ''text'', ''colors'', ''emotions'', ''comprehensive'']
          \<longrightarrow> populated r = {Description})"
  unfolding source_parse by (simp add: populated_def empty_result_def)

theorem one_field_group_witness:
  "parseAnalysisResult ''a red #FF0000 cat'' ''comprehensive'' =
     Inr \<lparr>description = None, objects = None, text_lines = None, colors = None, emotions = None,
          comprehensive = Some \<lparr>c_description = ''a red #FF0000 cat'', c_objects = [], c_text = [],
            c_colors = [], c_emotions = [], tags = []\<rparr>\<rparr>
   \<and> populated (projr (parseAnalysisResult ''a red #FF0000 cat'' ''comprehensive'')) = {Composite}
   \<and> populated (projr (parseAnalysisResult ''a red #FF0000 cat'' ''histogram'')) = {Description}"
  using one_field_group [of "''a red #FF0000 cat''" "''comprehensive''"]
    one_field_group [of "''a red #FF0000 cat''" "''histogram''"]
  by (auto simp: source_parse empty_result_def parseComprehensive_def)






section \<open>Properties of the operations\<close>

text \<open>
  Claim C9. When the admission check of a \<open>generateImage\<close> call succeeds and the remote
  call returns a response, the call returns exactly one image: the fixed mock payload with
  MIME type \<open>image/png\<close>, whatever \<open>numberOfImages\<close> and the other options are and
  whatever the response holds. Only the metadata varies (prompt, model, time stamp).
\<close>

theorem generateImage_mock:
  assumes admitted: "fst (checkRateLimit cfg (date_now (script w 0)) (requestTimestamps w)) = Inr ()"
    and returned: "respond (script w 0)
                     \<lparr>req_text = buildGenerationPrompt options, inlineData = None\<rparr> = Inr response"
  shows "fst (generateImage cfg options w) =
           Inr [\<lparr>base64 = mock_base64, mimeType = ''image/png'', img_width = None, img_height = None,
                 metadata = Some \<lparr>m_prompt = prompt options, m_model = model cfg,
                                  timestamp = iso_now (script w 0)\<rparr>\<rparr>]"
proof -
  obtain ts where c: "checkRateLimit cfg (date_now (script w 0)) (requestTimestamps w) = (Inr (), ts)"
    using admitted by (cases "checkRateLimit cfg (date_now (script w 0)) (requestTimestamps w)") auto
  show ?thesis
    using c returned
    by (simp add: generateImage_def next_io_def admission_def rethrow_def
        extractImagesFromResponse_def)
qed

theorem generateImage_mock_witness:
  "fst (checkRateLimit cfg1 (date_now (script world0 0)) (requestTimestamps world0)) = Inr ()
   \<and> respond (script world0 0)
        \<lparr>req_text = buildGenerationPrompt (no_options\<lparr>prompt := ''a cat'', numberOfImages := Some 4\<rparr>),
         inlineData = None\<rparr> = Inr (Response (Inr ''a cat''))
   \<and> fst (generateImage cfg1 (no_options\<lparr>prompt := ''a cat'', numberOfImages := Some 4\<rparr>) world0) =
       Inr [\<lparr>base64 = mock_base64, mimeType = ''image/png'', img_width = None, img_height = None,
             metadata = Some \<lparr>m_prompt = ''a cat'', m_model = ''m'',
                              timestamp = ''2025-01-01T00:00:00.000Z''\<rparr>\<rparr>]"
proof -
  have a: "fst (checkRateLimit cfg1 (date_now (script world0 0)) (requestTimestamps world0)) = Inr ()"
    by (simp add: checkRateLimit_def cfg1_def world0_def calm_io_def)
  have b: "respond (script world0 0)
        \<lparr>req_text = buildGenerationPrompt (no_options\<lparr>prompt := ''a cat'', numberOfImages := Some 4\<rparr>),
         inlineData = None\<rparr> = Inr (Response (Inr ''a cat''))"
    by (simp add: world0_def calm_io_def)
  show ?thesis
    using generateImage_mock [OF a b] a b
    by (simp add: no_options_def cfg1_def world0_def calm_io_def)
qed

lemma spy_loop:
  "batch_loop (spy gen) options ps results (s, trace0) = (r, (s', trace)) \<Longrightarrow>
   \<exists>calls. trace = trace0 @ calls
     \<and> map fst calls = map (imageOptions options) (take (length calls) ps)
     \<and> (\<forall>c\<in>set calls. \<exists>t. snd c = fst (gen (fst c) t))
     \<and> batch_loop gen options ps results s = (r, s')
     \<and> (\<forall>images. r = Inr images \<longrightarrow>
           length calls = length ps \<and> images = results @ concat (map (projr \<circ> snd) calls)
         \<and> (\<forall>c\<in>set calls. \<not> isl (snd c)))
     \<and> (\<forall>e. r = Inl e \<longrightarrow>
           calls \<noteq> [] \<and> snd (last calls) = Inl e \<and> (\<forall>c\<in>set (butlast calls). \<not> isl (snd c)))"
proof (induction ps arbitrary: results s trace0)
  case Nil
  then show ?case by auto
next
  case (Cons p ps)
  obtain r1 s1 where g: "gen (imageOptions options p) s = (r1, s1)"
    by (cases "gen (imageOptions options p) s") auto
  have r1: "r1 = fst (gen (imageOptions options p) s)" using g by simp
  have sp: "spy gen (imageOptions options p) (s, trace0) = (r1, (s1, trace0 @ [(imageOptions options p, r1)]))"
    using g by (simp add: spy_def)
  show ?case
  proof (cases r1)
    case (Inl e)
    then have "r = Inl e" "s' = s1" "trace = trace0 @ [(imageOptions options p, Inl e)]"
      using Cons.prems sp by auto
    moreover have "\<exists>t. Inl e = fst (gen (imageOptions options p) t)"
      using g Inl by (intro exI [of _ s]) simp
    ultimately show ?thesis using g Inl
      by (intro exI [of _ "[(imageOptions options p, Inl e)]"]) auto
  next
    case (Inr images)
    then have rest: "batch_loop (spy gen) options ps (results @ images)
        (s1, trace0 @ [(imageOptions options p, Inr images)]) = (r, (s', trace))"
      using Cons.prems sp by simp
    from Cons.IH [OF rest] obtain calls where c:
      "trace = (trace0 @ [(imageOptions options p, Inr images)]) @ calls"
      "map fst calls = map (imageOptions options) (take (length calls) ps)"
      "\<forall>c\<in>set calls. \<exists>t. snd c = fst (gen (fst c) t)"
      "batch_loop gen options ps (results @ images) s1 = (r, s')"
      "\<forall>imgs. r = Inr imgs \<longrightarrow>
           length calls = length ps \<and> imgs = (results @ images) @ concat (map (projr \<circ> snd) calls)
         \<and> (\<forall>c\<in>set calls. \<not> isl (snd c))"
      "\<forall>e. r = Inl e \<longrightarrow>
           calls \<noteq> [] \<and> snd (last calls) = Inl e \<and> (\<forall>c\<in>set (butlast calls). \<not> isl (snd c))"
      by blast
    let ?calls = "(imageOptions options p, Inr images) # calls"
    have 1: "trace = trace0 @ ?calls" using c(1) by simp
    have 2: "map fst ?calls = map (imageOptions options) (take (length ?calls) (p # ps))"
      using c(2) by simp
    have "\<exists>t. Inr images = fst (gen (imageOptions options p) t)"
      using g Inr by (intro exI [of _ s]) simp
    then have 3: "\<forall>c\<in>set ?calls. \<exists>t. snd c = fst (gen (fst c) t)"
      using c(3) by simp
    have 4: "batch_loop gen options (p # ps) results s = (r, s')"
      using c(4) g Inr by simp
    have 5: "\<forall>imgs. r = Inr imgs \<longrightarrow>
           length ?calls = length (p # ps) \<and> imgs = results @ concat (map (projr \<circ> snd) ?calls)
         \<and> (\<forall>c\<in>set ?calls. \<not> isl (snd c))"
      using c(5) by simp
    have 6: "\<forall>e. r = Inl e \<longrightarrow>
           ?calls \<noteq> [] \<and> snd (last ?calls) = Inl e \<and> (\<forall>c\<in>set (butlast ?calls). \<not> isl (snd c))"
      using c(6) by auto
    show ?thesis using 1 2 3 4 5 6 by blast
  qed
qed

lemma generateImage_images:
  "fst (generateImage cfg options w) = Inr images \<Longrightarrow>
   map (\<lambda>img. map_option m_prompt (metadata img)) images = [Some (prompt options)]"
  by (auto simp: generateImage_def next_io_def admission_def rethrow_def extractImagesFromResponse_def
      split: prod.splits sum.splits thrown.splits)

lemma prompt_imageOptions: "prompt (imageOptions options p) = p"
  by (simp add: imageOptions_def)

lemma logged_prompts:
  assumes "\<forall>c\<in>set calls. \<exists>t. snd c = fst (generateImage cfg (fst c) t)"
    and "\<forall>c\<in>set calls. \<not> isl (snd c)"
  shows "map (\<lambda>img. map_option m_prompt (metadata img)) (concat (map (projr \<circ> snd) calls)) =
         map (\<lambda>c. Some (prompt (fst c))) calls"
  using assms
proof (induction calls)
  case Nil
  then show ?case by simp
next
  case (Cons c calls)
  obtain t where t: "snd c = fst (generateImage cfg (fst c) t)" using Cons.prems(1) by auto
  have "\<not> isl (snd c)" using Cons.prems(2) by simp
  then obtain images where i: "snd c = Inr images" by (cases "snd c") auto
  have "map (\<lambda>img. map_option m_prompt (metadata img)) images = [Some (prompt (fst c))]"
    using generateImage_images [of cfg "fst c" t images] t i by simp
  then show ?case using Cons i by simp
qed

text \<open>
  Claim C4. Run \<open>generateBatch\<close> with a recorder around \<open>generateImage\<close>. The recorder
  does not change the outcome or the state. The recorded calls are the single-prompt
  calls for a prefix of the prompt list, one per prompt and in input order. When the batch
  returns, every prompt has been called, the result is the concatenation of the images of
  the calls in that order, and the prompts in the images' metadata are the input prompts
  in order. When the batch throws, the thrown value is that of the last recorded call,
  every earlier call had succeeded, and no call follows it; the thrown value is all the
  caller receives.
\<close>

theorem batch_sequential:
  assumes run: "generateBatch_via (spy (generateImage cfg)) options (w, []) = (r, (w', trace))"
  shows "generateBatch cfg options w = (r, w')
     \<and> map fst trace = map (imageOptions options) (take (length trace) (prompts options))
     \<and> (\<forall>images. r = Inr images \<longrightarrow>
           length trace = length (prompts options)
         \<and> images = concat (map (projr \<circ> snd) trace)
         \<and> map (\<lambda>img. map_option m_prompt (metadata img)) images = map Some (prompts options))
     \<and> (\<forall>e. r = Inl e \<longrightarrow>
           trace \<noteq> [] \<and> snd (last trace) = Inl e \<and> (\<forall>c\<in>set (butlast trace). \<not> isl (snd c)))"
proof -
  from spy_loop [of "generateImage cfg" options "prompts options" "[]" w "[]" r w' trace] run
  obtain calls where c:
    "trace = [] @ calls"
    "map fst calls = map (imageOptions options) (take (length calls) (prompts options))"
    "\<forall>c\<in>set calls. \<exists>t. snd c = fst (generateImage cfg (fst c) t)"
    "batch_loop (generateImage cfg) options (prompts options) [] w = (r, w')"
    "\<forall>images. r = Inr images \<longrightarrow>
       length calls = length (prompts options) \<and> images = [] @ concat (map (projr \<circ> snd) calls)
       \<and> (\<forall>c\<in>set calls. \<not> isl (snd c))"
    "\<forall>e. r = Inl e \<longrightarrow>
       calls \<noteq> [] \<and> snd (last calls) = Inl e \<and> (\<forall>c\<in>set (butlast calls). \<not> isl (snd c))"
    unfolding generateBatch_via_def by blast
  have t: "trace = calls" using c(1) by simp
  have plain: "generateBatch cfg options w = (r, w')"
    using c(4) by (simp add: generateBatch_def generateBatch_via_def)
  have order: "map (\<lambda>img. map_option m_prompt (metadata img)) images = map Some (prompts options)"
    if r: "r = Inr images" for images
  proof -
    have len: "length calls = length (prompts options)"
      and img: "images = concat (map (projr \<circ> snd) calls)"
      and ok: "\<forall>c\<in>set calls. \<not> isl (snd c)"
      using c(5) r by auto
    have "map (\<lambda>img. map_option m_prompt (metadata img)) images =
          map (\<lambda>c. Some (prompt (fst c))) calls"
      unfolding img by (rule logged_prompts [OF c(3) ok])
    also have "\<dots> = map (\<lambda>a. Some (prompt a)) (map fst calls)"
      by (simp add: comp_def)
    also have "\<dots> = map Some (prompts options)"
      unfolding c(2) using len by (simp add: comp_def prompt_imageOptions)
    finally show ?thesis .
  qed
  show ?thesis
    using plain c(2) c(5) c(6) order unfolding t by simp
qed

lemmas run_eval = generateBatch_via_def spy_def generateImage_def next_io_def admission_def
  checkRateLimit_def rethrow_def extractImagesFromResponse_def imageOptions_def no_options_def
  calm_io_def world0_def abc_def cfg1_def cfg10_def rate_limit_message_def waitTime_def Math_min_def
  ceil_seconds_def show_jsnum_def show_int_def show_nat.simps digit_char_def

lemma abc_run1:
  "fst (generateBatch_via (spy (generateImage cfg1)) abc (world0, [])) =
     Inl (Error ''Rate limit exceeded. Please wait 59 seconds.'')"
  by (simp add: run_eval)

lemma abc_run2:
  "map (\<lambda>c. (prompt (fst c), isl (snd c))) (snd (snd (generateBatch_via (spy (generateImage cfg1)) abc (world0, [])))) =
     [(''a'', False), (''b'', True)]"
  by (simp add: run_eval)

lemma abc_run3:
  "map (\<lambda>img. map_option m_prompt (metadata img))
     (projr (fst (generateBatch_via (spy (generateImage cfg10)) abc (world0, [])))) =
     [Some ''a'', Some ''b'', Some ''c'']
   \<and> map (prompt \<circ> fst) (snd (snd (generateBatch_via (spy (generateImage cfg10)) abc (world0, [])))) =
       [''a'', ''b'', ''c'']"
  by (simp add: run_eval)

theorem batch_sequential_witness:
  "fst (generateBatch cfg1 abc world0) = Inl (Error ''Rate limit exceeded. Please wait 59 seconds.'')
   \<and> map (\<lambda>c. (prompt (fst c), isl (snd c)))
        (snd (snd (generateBatch_via (spy (generateImage cfg1)) abc (world0, [])))) =
       [(''a'', False), (''b'', True)]
   \<and> snd (last (snd (snd (generateBatch_via (spy (generateImage cfg1)) abc (world0, []))))) =
       Inl (Error ''Rate limit exceeded. Please wait 59 seconds.'')
   \<and> map (\<lambda>img. map_option m_prompt (metadata img)) (projr (fst (generateBatch cfg10 abc world0))) =
       [Some ''a'', Some ''b'', Some ''c'']
   \<and> map (prompt \<circ> fst) (snd (snd (generateBatch_via (spy (generateImage cfg10)) abc (world0, [])))) =
       [''a'', ''b'', ''c'']"
proof -
  let ?run = "generateBatch_via (spy (generateImage cfg1)) abc (world0, [])"
  let ?all = "generateBatch_via (spy (generateImage cfg10)) abc (world0, [])"
  have h: "?run = (fst ?run, (fst (snd ?run), snd (snd ?run)))" by simp
  have k: "?all = (fst ?all, (fst (snd ?all), snd (snd ?all)))" by simp
  show ?thesis
    using batch_sequential [OF h] batch_sequential [OF k] abc_run1 abc_run2 abc_run3 by simp
qed

text \<open>
  Claim C10. With \<open>intensity\<close> equal to 0 the instruction of \<open>applyStyleTransfer\<close> is the
  one produced with \<open>intensity\<close> absent: \<open>Apply <style> style to this image. \<close> and no
  intensity clause; the whole operation behaves alike in both cases.
\<close>

theorem zero_intensity_dropped:
  "style_instructions (options\<lparr>intensity := Some 0\<rparr>) = style_instructions (options\<lparr>intensity := None\<rparr>)
   \<and> style_instructions (options\<lparr>intensity := Some 0\<rparr>) = ''Apply '' @ s_style options @ '' style to this image. ''
   \<and> applyStyleTransfer cfg (options\<lparr>intensity := Some 0\<rparr>) = applyStyleTransfer cfg (options\<lparr>intensity := None\<rparr>)"
  by (simp add: style_instructions_def applyStyleTransfer_def style_request_def)

lemma style_transfer_lowering:
  "applyStyleTransfer cfg options w = modifyImage cfg (style_request options) w
   \<and> preserveStyle (style_request options) = Some False
   \<and> imageBase64 (style_request options) = s_imageBase64 options
   \<and> sublist (s_style options) (instructions (style_request options))
   \<and> (\<forall>n. intensity options = Some n \<and> n \<noteq> 0 \<longrightarrow>
         sublist (show_int n @ ''%'') (instructions (style_request options)))"
proof -
  have a: "sublist (s_style options) (''Apply '' @ s_style options @ rest)" for rest
    by (rule sublist_appendI)
  have b: "sublist (show_int n @ ''%'')
             ((''Apply '' @ s_style options @ '' style to this image. Use '') @ (show_int n @ ''%'') @
              '' intensity for the style transfer.'')" for n
    by (rule sublist_appendI)
  show ?thesis
    using a b by (auto simp: applyStyleTransfer_def style_request_def style_instructions_def
        split: option.splits)
qed

text \<open>
  Claim C8 at the input \<open>{style: "cyberpunk", intensity: 0}\<close>: the intensity is supplied,
  yet the instruction handed to \<open>modifyImage\<close> is \<open>Apply cyberpunk style to this image. \<close>
  and does not contain \<open>0%\<close>.
\<close>

theorem zero_intensity_instruction:
  "applyStyleTransfer cfg cyberpunk0 w =
     modifyImage cfg
       \<lparr>imageBase64 = ''aGVsbG8='', instructions = ''Apply cyberpunk style to this image. '',
        preserveStyle = Some False, strength = None\<rparr> w
   \<and> intensity cyberpunk0 = Some 0
   \<and> \<not> sublist ''0%'' (instructions (style_request cyberpunk0))"
  by (simp add: applyStyleTransfer_def cyberpunk0_def style_request_def style_instructions_def
      sublist_code)

lemma cyberpunk80:
  "instructions (style_request (cyberpunk0\<lparr>intensity := Some 80, s_preserveStyle := Some True\<rparr>)) =
     ''Apply cyberpunk style to this image. Use 80% intensity for the style transfer.''
   \<and> preserveStyle (style_request (cyberpunk0\<lparr>intensity := Some 80, s_preserveStyle := Some True\<rparr>)) = Some False"
  by (simp add: cyberpunk0_def style_request_def style_instructions_def show_int_def
      show_nat.simps digit_char_def)

section \<open>Properties of the gateway\<close>

lemma checkRateLimit_error:
  "fst (checkRateLimit cfg now ts) = Inl e \<Longrightarrow> \<exists>m. e = Error m"
  by (auto simp: checkRateLimit_def Let_def split: if_splits)

lemma admission_error: "admission cfg i w = (Inl e, w') \<Longrightarrow> \<exists>m. e = Error m"
  using checkRateLimit_error [of cfg "date_now i" "requestTimestamps w" e]
  by (auto simp: admission_def split: prod.splits)

lemma rethrow_error: "rethrow label r = Inl e \<Longrightarrow> \<exists>m. e = Error m"
  by (auto simp: rethrow_def split: sum.splits thrown.splits)

lemma generateImage_error: "fst (generateImage cfg options w) = Inl e \<Longrightarrow> \<exists>m. e = Error m"
  unfolding generateImage_def
  by (auto split: prod.splits sum.splits dest: admission_error rethrow_error)

lemma modifyImage_error: "fst (modifyImage cfg options w) = Inl e \<Longrightarrow> \<exists>m. e = Error m"
  unfolding modifyImage_def
  by (auto split: prod.splits sum.splits dest: admission_error rethrow_error)

lemma analyzeImage_error: "fst (analyzeImage cfg options w) = Inl e \<Longrightarrow> \<exists>m. e = Error m"
  unfolding analyzeImage_def
  by (auto split: prod.splits sum.splits dest: admission_error rethrow_error)

lemma batch_loop_error:
  assumes "\<And>a s e. fst (gen a s) = Inl e \<Longrightarrow> \<exists>m. e = Error m"
  shows "fst (batch_loop gen options ps results s) = Inl e \<Longrightarrow> \<exists>m. e = Error m"
proof (induction ps arbitrary: results s)
  case Nil
  then show ?case by simp
next
  case (Cons p ps)
  obtain r1 s1 where g: "gen (imageOptions options p) s = (r1, s1)"
    by (cases "gen (imageOptions options p) s") auto
  show ?case
  proof (cases r1)
    case (Inl e1)
    then have "e = e1" using Cons.prems g by simp
    moreover have "\<exists>m. e1 = Error m" using assms [of "imageOptions options p" s e1] g Inl by simp
    ultimately show ?thesis by simp
  next
    case (Inr images)
    then show ?thesis using Cons g by simp
  qed
qed

lemma generateBatch_error: "fst (generateBatch cfg options w) = Inl e \<Longrightarrow> \<exists>m. e = Error m"
  unfolding generateBatch_def generateBatch_via_def
  by (rule batch_loop_error [of "generateImage cfg"]) (auto dest: generateImage_error)

lemma read_image_error: "read_image img = Inl e \<Longrightarrow> \<exists>m. e = Error m"
  by (auto simp: read_image_def split: option.splits)

lemma handleGenerateImage_error:
  "fst (handleGenerateImage cfg options w) = Inl e \<Longrightarrow> \<exists>m. e = Error m"
  using generateImage_error [of cfg options w e]
  by (auto simp: handleGenerateImage_def split: prod.splits sum.splits)

lemma handleModifyImage_error:
  "fst (handleModifyImage cfg options w) = Inl e \<Longrightarrow> \<exists>m. e = Error m"
  using modifyImage_error [of cfg options w e]
  by (auto simp: handleModifyImage_def split: prod.splits sum.splits dest: read_image_error)

lemma handleAnalyzeImage_error:
  "fst (handleAnalyzeImage js cfg options w) = Inl e \<Longrightarrow> \<exists>m. e = Error m"
  using analyzeImage_error [of cfg options w e]
  by (auto simp: handleAnalyzeImage_def split: prod.splits sum.splits)

lemma handleBatchGenerate_error:
  "fst (handleBatchGenerate cfg options w) = Inl e \<Longrightarrow> \<exists>m. e = Error m"
  using generateBatch_error [of cfg options w e]
  by (auto simp: handleBatchGenerate_def split: prod.splits sum.splits)

lemma handleStyleTransfer_error:
  "fst (handleStyleTransfer cfg options w) = Inl e \<Longrightarrow> \<exists>m. e = Error m"
  using modifyImage_error [of cfg "style_request options" w e]
  by (auto simp: handleStyleTransfer_def applyStyleTransfer_def split: prod.splits sum.splits
      dest: read_image_error)

lemma dispatch_error: "fst (dispatch js cfg tool args w) = Inl e \<Longrightarrow> \<exists>m. e = Error m"
  unfolding dispatch_def
  by (auto split: if_splits dest: handleGenerateImage_error handleModifyImage_error
      handleAnalyzeImage_error handleBatchGenerate_error handleStyleTransfer_error)

lemma callTool_cases:
  "fst (callTool js cfg tool args w) =
     (case fst (dispatch js cfg tool args w) of
        Inr response \<Rightarrow> Inr response
      | Inl error \<Rightarrow> Inr (error_envelope error))"
  by (simp add: callTool_def split: prod.splits sum.splits)

text \<open>
  Claim C5. For every tool name, arguments object and state, the tool-call handler returns
  a response envelope and throws nothing. Whenever the dispatch throws, the thrown value
  is an \<open>Error\<close> with some message \<open>m\<close> and the response is the error-flagged envelope
  with the text \<open>Error: m\<close>. A tool name outside the catalogue of five gives the
  error-flagged envelope \<open>Error: Unknown tool: <name>\<close> and leaves the state unchanged.
\<close>

theorem gateway_catches:
  "(\<exists>response. fst (callTool js cfg tool args w) = Inr response)
   \<and> (\<forall>e. fst (dispatch js cfg tool args w) = Inl e \<longrightarrow>
         (\<exists>m. e = Error m
            \<and> fst (callTool js cfg tool args w) =
                Inr \<lparr>content = [TextContent (''Error: '' @ m)], isError = Some True\<rparr>))
   \<and> (tool \<notin> set catalogue \<longrightarrow>
         callTool js cfg tool args w =
           (Inr \<lparr>content = [TextContent (''Error: Unknown tool: '' @ tool)], isError = Some True\<rparr>, w))"
proof (intro conjI allI impI)
  show "\<exists>response. fst (callTool js cfg tool args w) = Inr response"
    by (simp add: callTool_cases split: sum.splits)
next
  fix e
  assume d: "fst (dispatch js cfg tool args w) = Inl e"
  then obtain m where m: "e = Error m" using dispatch_error by blast
  have "fst (callTool js cfg tool args w) =
          Inr \<lparr>content = [TextContent (''Error: '' @ m)], isError = Some True\<rparr>"
    using d m by (simp add: callTool_cases error_envelope_def)
  then show "\<exists>m. e = Error m
            \<and> fst (callTool js cfg tool args w) =
                Inr \<lparr>content = [TextContent (''Error: '' @ m)], isError = Some True\<rparr>"
    using m by simp
next
  assume "tool \<notin> set catalogue"
  then have "dispatch js cfg tool args w = (Inl (Error (''Unknown tool: '' @ tool)), w)"
    by (simp add: dispatch_def catalogue_def)
  then show "callTool js cfg tool args w =
           (Inr \<lparr>content = [TextContent (''Error: Unknown tool: '' @ tool)], isError = Some True\<rparr>, w)"
    by (simp add: callTool_def error_envelope_def)
qed

theorem gateway_catches_witness:
  "fst (dispatch js0 cfg0 ''generateImage'' some_args world0) =
     Inl (Error ''Rate limit exceeded. Please wait Infinity seconds.'')
   \<and> fst (callTool js0 cfg0 ''generateImage'' some_args world0) =
       Inr \<lparr>content = [TextContent ''Error: Rate limit exceeded. Please wait Infinity seconds.''],
            isError = Some True\<rparr>
   \<and> ''deleteImage'' \<notin> set catalogue
   \<and> callTool js0 cfg0 ''deleteImage'' some_args world0 =
       (Inr \<lparr>content = [TextContent ''Error: Unknown tool: deleteImage''], isError = Some True\<rparr>, world0)"
proof -
  have d: "fst (dispatch js0 cfg0 ''generateImage'' some_args world0) =
     Inl (Error ''Rate limit exceeded. Please wait Infinity seconds.'')"
    by (simp add: dispatch_def handleGenerateImage_def generateImage_def next_io_def admission_def
        checkRateLimit_def cfg0_def world0_def calm_io_def rate_limit_message_def waitTime_def
        Math_min_def ceil_seconds_def show_jsnum_def)
  have u: "''deleteImage'' \<notin> set catalogue" by (simp add: catalogue_def)
  show ?thesis
    using gateway_catches [of js0 cfg0 "''generateImage''" some_args world0]
      gateway_catches [of js0 cfg0 "''deleteImage''" some_args world0] d u
    by simp
qed

end
